theory Spec2Isabelle
  imports Main
begin

section \<open>Text\<close>

text \<open>
  A Python \<^verbatim>\<open>str\<close> is a sequence of Unicode code points: SQL text is a list of
  integers, the code points as \<^verbatim>\<open>ord\<close> gives them (no text holds a negative one).
  \<open>str\<close> writes a literal of the source, whose characters are ASCII, as such a list.
\<close>

type_synonym code_point = int

definition str :: "string \<Rightarrow> code_point list" where
  "str s = map of_char s"

text \<open>
  What \<^verbatim>\<open>str.upper\<close>, \<^verbatim>\<open>str.lower\<close>, \<^verbatim>\<open>str.isspace\<close> and \<^verbatim>\<open>str.isalnum\<close> do
  on the ASCII code points is fixed and written out below. What they do on the code
  points from 128 on is given by the Unicode database of the interpreter, which is a
  parameter of the model: \<open>to_upper\<close> and \<open>to_lower\<close> are the full case mappings of one
  code point (they may give several code points), \<open>is_space\<close> and \<open>is_alnum\<close> the two
  classes. Every function of the validator takes these tables as its first argument.
\<close>

record unicode =
  to_upper :: "code_point \<Rightarrow> code_point list"
  to_lower :: "code_point \<Rightarrow> code_point list"
  is_space :: "code_point \<Rightarrow> bool"
  is_alnum :: "code_point \<Rightarrow> bool"

definition isspace :: "unicode \<Rightarrow> code_point \<Rightarrow> bool" where
  \<comment> \<open>\<^verbatim>\<open>str.isspace\<close>, also the class \<^verbatim>\<open>\s\<close>; in ASCII: tab, line feed, vertical tab,
      form feed, carriage return, FS, GS, RS, US, space\<close>
  "isspace U c =
     (if c < 128 then (9 \<le> c \<and> c \<le> 13) \<or> (28 \<le> c \<and> c \<le> 32) else is_space U c)"

definition isalnum :: "unicode \<Rightarrow> code_point \<Rightarrow> bool" where
  "isalnum U c =
     (if c < 128 then (48 \<le> c \<and> c \<le> 57) \<or> (65 \<le> c \<and> c \<le> 90) \<or> (97 \<le> c \<and> c \<le> 122)
      else is_alnum U c)"

definition isword :: "unicode \<Rightarrow> code_point \<Rightarrow> bool" where
  \<comment> \<open>the class \<^verbatim>\<open>\w\<close> of a pattern on \<^verbatim>\<open>str\<close>: alphanumeric, or the underscore\<close>
  "isword U c = (isalnum U c \<or> c = 95)"

definition upper_char :: "unicode \<Rightarrow> code_point \<Rightarrow> code_point list" where
  "upper_char U c =
     (if c < 128 then (if 97 \<le> c \<and> c \<le> 122 then [c - 32] else [c]) else to_upper U c)"

definition lower_char :: "unicode \<Rightarrow> code_point \<Rightarrow> code_point list" where
  "lower_char U c =
     (if c < 128 then (if 65 \<le> c \<and> c \<le> 90 then [c + 32] else [c]) else to_lower U c)"

definition str_upper :: "unicode \<Rightarrow> code_point list \<Rightarrow> code_point list" where
  \<comment> \<open>\<^verbatim>\<open>s.upper()\<close> maps each code point on its own\<close>
  "str_upper U s = concat (map (upper_char U) s)"

definition str_lower :: "unicode \<Rightarrow> code_point list \<Rightarrow> code_point list" where
  \<comment> \<open>\<^verbatim>\<open>s.lower()\<close> on a text without the Greek capital sigma, the one code point that
      \<^verbatim>\<open>lower\<close> maps by its context; the validator does not call it\<close>
  "str_lower U s = concat (map (lower_char U) s)"

definition str_strip :: "unicode \<Rightarrow> code_point list \<Rightarrow> code_point list" where
  "str_strip U s = rev (dropWhile (isspace U) (rev (dropWhile (isspace U) s)))"

text \<open>
  \<^verbatim>\<open>s.split()\<close>: the maximal runs of code points that are not white space, in order.
  \<open>cur\<close> is the run being read.
\<close>

fun split_from :: "unicode \<Rightarrow> code_point list \<Rightarrow> code_point list \<Rightarrow> code_point list list" where
  "split_from U cur [] = (if cur = [] then [] else [cur])"
| "split_from U cur (c # cs) =
     (if isspace U c then (if cur = [] then split_from U [] cs else cur # split_from U [] cs)
      else split_from U (cur @ [c]) cs)"

definition str_split :: "unicode \<Rightarrow> code_point list \<Rightarrow> code_point list list" where
  "str_split U s = split_from U [] s"

fun str_startswith :: "code_point list \<Rightarrow> code_point list \<Rightarrow> bool" where
  \<comment> \<open>\<open>str_startswith p s\<close> is \<^verbatim>\<open>s.startswith(p)\<close>\<close>
  "str_startswith [] s = True"
| "str_startswith (p # ps) [] = False"
| "str_startswith (p # ps) (c # cs) = (p = c \<and> str_startswith ps cs)"

fun str_contains :: "code_point list \<Rightarrow> code_point list \<Rightarrow> bool" where
  \<comment> \<open>\<open>str_contains f s\<close> is \<^verbatim>\<open>f in s\<close>\<close>
  "str_contains f [] = (f = [])"
| "str_contains f (c # cs) = (str_startswith f (c # cs) \<or> str_contains f cs)"

subsection \<open>The regular expressions of the SELECT scan\<close>

text \<open>
  The seven patterns are sequences of four kinds of item: the assertion \<^verbatim>\<open>\b\<close>, a literal
  character, \<^verbatim>\<open>\s+\<close> and \<^verbatim>\<open>\w+\<close>. \<open>re_match_here U r prev s\<close> says that \<open>r\<close> matches a
  prefix of \<open>s\<close>, where \<open>prev\<close> is the code point before \<open>s\<close> in the searched text (none at
  its start); a \<^verbatim>\<open>+\<close> item takes one code point and then either goes on or hands over,
  which covers every way of backtracking. \<open>re_search\<close> tries every start position, as
  \<^verbatim>\<open>re.search\<close> does, and tells whether a match object is returned.
\<close>

datatype re_item = WordBoundary | Lit code_point | SpacePlus | WordPlus

definition at_boundary :: "unicode \<Rightarrow> code_point option \<Rightarrow> code_point list \<Rightarrow> bool" where
  "at_boundary U prev s =
     ((case prev of None \<Rightarrow> False | Some c \<Rightarrow> isword U c) \<noteq>
      (case s of [] \<Rightarrow> False | c # _ \<Rightarrow> isword U c))"

fun re_match_here :: "unicode \<Rightarrow> re_item list \<Rightarrow> code_point option \<Rightarrow> code_point list \<Rightarrow> bool" where
  "re_match_here U [] prev s = True"
| "re_match_here U (WordBoundary # r) prev s = (at_boundary U prev s \<and> re_match_here U r prev s)"
| "re_match_here U (Lit c # r) prev [] = False"
| "re_match_here U (Lit c # r) prev (x # xs) = (x = c \<and> re_match_here U r (Some x) xs)"
| "re_match_here U (SpacePlus # r) prev [] = False"
| "re_match_here U (SpacePlus # r) prev (x # xs) =
     (isspace U x \<and> (re_match_here U (SpacePlus # r) (Some x) xs \<or> re_match_here U r (Some x) xs))"
| "re_match_here U (WordPlus # r) prev [] = False"
| "re_match_here U (WordPlus # r) prev (x # xs) =
     (isword U x \<and> (re_match_here U (WordPlus # r) (Some x) xs \<or> re_match_here U r (Some x) xs))"

fun re_search_from :: "unicode \<Rightarrow> re_item list \<Rightarrow> code_point option \<Rightarrow> code_point list \<Rightarrow> bool" where
  "re_search_from U r prev [] = re_match_here U r prev []"
| "re_search_from U r prev (x # xs) =
     (re_match_here U r prev (x # xs) \<or> re_search_from U r (Some x) xs)"

definition re_search :: "unicode \<Rightarrow> re_item list \<Rightarrow> code_point list \<Rightarrow> bool" where
  "re_search U r s = re_search_from U r None s"

definition lits :: "string \<Rightarrow> re_item list" where
  "lits s = map Lit (str s)"

definition dangerous_patterns :: "re_item list list" where
  "dangerous_patterns =
     [WordBoundary # lits ''DROP'' @ SpacePlus # lits ''TABLE'' @ [WordBoundary],
      WordBoundary # lits ''TRUNCATE'' @ SpacePlus # lits ''TABLE'' @ [WordBoundary],
      WordBoundary # lits ''DELETE'' @ SpacePlus # lits ''FROM'' @ [WordBoundary],
      WordBoundary # lits ''INSERT'' @ SpacePlus # lits ''INTO'' @ [WordBoundary],
      WordBoundary # lits ''UPDATE'' @ SpacePlus # WordPlus # SpacePlus # lits ''SET'' @ [WordBoundary],
      WordBoundary # lits ''CREATE'' @ SpacePlus # lits ''TABLE'' @ [WordBoundary],
      WordBoundary # lits ''ALTER'' @ SpacePlus # lits ''TABLE'' @ [WordBoundary]]"

section \<open>SQLValidator\<close>

text \<open>
  Modelled from the spec: the enumeration \<^verbatim>\<open>SecurityMode\<close> is declared in the
  configuration module; the spec gives its three values.
\<close>

datatype SecurityMode = READONLY | LIMITED_WRITE | FULL_ACCESS

definition READONLY_OPERATIONS :: "code_point list list" where
  "READONLY_OPERATIONS =
     map str [''SELECT'', ''WITH'', ''SHOW'', ''DESCRIBE'', ''EXPLAIN'', ''ANALYZE'']"

definition WRITE_OPERATIONS :: "code_point list list" where
  "WRITE_OPERATIONS = map str [''INSERT'', ''UPDATE'']"

definition DANGEROUS_OPERATIONS :: "code_point list list" where
  "DANGEROUS_OPERATIONS =
     map str [''DELETE'', ''DROP'', ''CREATE'', ''ALTER'', ''TRUNCATE'', ''GRANT'', ''REVOKE'']"

definition extract_first_keyword :: "unicode \<Rightarrow> code_point list \<Rightarrow> code_point list" where
  "extract_first_keyword U sql_upper = (case str_split U sql_upper of [] \<Rightarrow> [] | w # _ \<Rightarrow> w)"

definition validate_readonly :: "unicode \<Rightarrow> code_point list \<Rightarrow> code_point list \<Rightarrow> bool" where
  "validate_readonly U first_keyword sql_upper =
     (if first_keyword \<notin> set READONLY_OPERATIONS then False
      else if first_keyword = str ''SELECT''
        then \<not> list_ex (\<lambda>pattern. re_search U pattern sql_upper) dangerous_patterns
        else \<not> list_ex (\<lambda>forbidden. str_contains forbidden sql_upper)
                 (WRITE_OPERATIONS @ DANGEROUS_OPERATIONS))"

definition validate_limited_write :: "unicode \<Rightarrow> code_point list \<Rightarrow> code_point list \<Rightarrow> bool" where
  "validate_limited_write U first_keyword sql_upper =
     (if first_keyword \<notin> set (READONLY_OPERATIONS @ WRITE_OPERATIONS) then False
      else \<not> list_ex (\<lambda>dangerous. str_contains dangerous sql_upper) DANGEROUS_OPERATIONS)"

definition validate_sql :: "unicode \<Rightarrow> code_point list \<Rightarrow> SecurityMode \<Rightarrow> bool" where
  "validate_sql U sql security_mode =
     (let sql_upper = str_strip U (str_upper U sql);
          first_keyword = extract_first_keyword U sql_upper
      in case security_mode of
           READONLY \<Rightarrow> validate_readonly U first_keyword sql_upper
         | LIMITED_WRITE \<Rightarrow> validate_limited_write U first_keyword sql_upper
         | FULL_ACCESS \<Rightarrow> True)"

text \<open>
  The messages of \<^verbatim>\<open>get_error_message\<close> are format strings with the leading keyword
  filled in. A constructor stands for each format string:
  \<^item> \<open>ReadonlyWriteForbidden\<close>: "a write operation is forbidden in read-only mode: kw";
  \<^item> \<open>ReadonlyDangerousForbidden\<close>: "a dangerous operation is forbidden in read-only mode: kw";
  \<^item> \<open>ReadonlyUnsupported\<close>: "operation not supported in read-only mode: kw";
  \<^item> \<open>LimitedDangerousForbidden\<close>: "a dangerous operation is forbidden in limited-write mode: kw";
  \<^item> \<open>LimitedUnsupported\<close>: "operation not supported in limited-write mode: kw";
  \<^item> \<open>PolicyForbidden\<close>: "the operation is forbidden by the security policy".
\<close>

datatype message =
    ReadonlyWriteForbidden "code_point list"
  | ReadonlyDangerousForbidden "code_point list"
  | ReadonlyUnsupported "code_point list"
  | LimitedDangerousForbidden "code_point list"
  | LimitedUnsupported "code_point list"
  | PolicyForbidden

definition get_error_message :: "unicode \<Rightarrow> code_point list \<Rightarrow> SecurityMode \<Rightarrow> message" where
  "get_error_message U sql security_mode =
     (let sql_upper = str_strip U (str_upper U sql);
          first_keyword = extract_first_keyword U sql_upper
      in case security_mode of
           READONLY \<Rightarrow>
             if first_keyword \<in> set WRITE_OPERATIONS then ReadonlyWriteForbidden first_keyword
             else if first_keyword \<in> set DANGEROUS_OPERATIONS
               then ReadonlyDangerousForbidden first_keyword
             else ReadonlyUnsupported first_keyword
         | LIMITED_WRITE \<Rightarrow>
             if first_keyword \<in> set DANGEROUS_OPERATIONS
               then LimitedDangerousForbidden first_keyword
             else LimitedUnsupported first_keyword
         | FULL_ACCESS \<Rightarrow> PolicyForbidden)"

section \<open>DamengDatabase\<close>

text \<open>
  The configuration object comes from a module outside the files at hand; the executor
  reads the fields below from it. \<open>is_all_schemas_allowed\<close> and
  \<open>is_auto_discover_schemas\<close> hold what the configuration's methods of these names
  return.
\<close>

record Config =
  security_mode :: SecurityMode
  max_result_rows :: int
  is_all_schemas_allowed :: bool
  is_auto_discover_schemas :: bool
  allowed_schemas :: "code_point list list"

text \<open>
  The database driver is the external collaborator. A value of \<open>driver\<close> fixes what each
  of its calls does: \<open>connect\<close> is the acquisition of the connection scope (\<open>None\<close> when
  it succeeds), \<open>execute\<close> runs a statement with its parameters and gives the cursor,
  \<open>commit\<close> commits (\<open>None\<close> when it succeeds). A cursor holds what \<^verbatim>\<open>fetchall()\<close>
  gives, the column names of \<^verbatim>\<open>description\<close> and \<^verbatim>\<open>rowcount\<close>.
\<close>

datatype db_value = Null | IntVal int | StrVal "code_point list"

datatype db_error = DbError string

type_synonym row = "db_value list"

type_synonym row_dict = "(code_point list \<times> db_value) list"

record cursor =
  fetchall :: "db_error + row list"
  description :: "code_point list list option"
  rowcount :: int

record driver =
  connect :: "db_error option"
  execute :: "code_point list \<Rightarrow> row option \<Rightarrow> db_error + cursor"
  commit :: "db_error option"

datatype error =
    PolicyViolation message
  | SystemQueryNotReadonly
  | BackendError db_error

text \<open>
  What the body of \<^verbatim>\<open>execute_query\<close> does besides returning: running the statement,
  fetching the rows, logging the warning that the result was cut, committing. The
  informational log lines are left out, and the session set-up of \<^verbatim>\<open>get_connection\<close>
  (connecting, the set-up statement in read-only mode, its commit) is the one step
  \<open>connect\<close>. An exception of the driver leaves \<^verbatim>\<open>execute_query\<close> as it was raised;
  it is the result \<open>Inl (BackendError e)\<close>, and a refusal by the validator is
  \<open>Inl (PolicyViolation m)\<close> with the message \<open>m\<close> of \<open>get_error_message\<close>.
\<close>

datatype event = StatementExecuted | RowsFetched | TruncationWarning | TransactionCommitted

fun dict_set :: "code_point list \<Rightarrow> db_value \<Rightarrow> row_dict \<Rightarrow> row_dict" where
  \<comment> \<open>\<^verbatim>\<open>d[k] = v\<close> on a dictionary that keeps insertion order\<close>
  "dict_set k v [] = [(k, v)]"
| "dict_set k v ((k', v') # d) = (if k' = k then (k, v) # d else (k', v') # dict_set k v d)"

definition dict_zip :: "code_point list list \<Rightarrow> row \<Rightarrow> row_dict" where
  \<comment> \<open>\<^verbatim>\<open>dict(zip(columns, row))\<close>\<close>
  "dict_zip columns r = fold (\<lambda>(k, v) d. dict_set k v d) (zip columns r) []"

definition slice_to :: "'a list \<Rightarrow> int \<Rightarrow> 'a list" where
  \<comment> \<open>\<^verbatim>\<open>xs[:n]\<close>; a negative \<open>n\<close> counts from the end\<close>
  "slice_to xs n = (if 0 \<le> n then take (nat n) xs else take (length xs - nat (- n)) xs)"

definition is_query_statement :: "unicode \<Rightarrow> code_point list \<Rightarrow> bool" where
  "is_query_statement U sql =
     list_ex (\<lambda>p. str_startswith p (str_strip U (str_upper U sql)))
       (map str [''SELECT'', ''WITH'', ''SHOW'', ''DESCRIBE'', ''EXPLAIN''])"

definition summary :: "int \<Rightarrow> row_dict" where
  "summary affected_rows =
     [(str ''affected_rows'', IntVal affected_rows), (str ''status'', StrVal (str ''success''))]"

definition execute_query ::
  "unicode \<Rightarrow> Config \<Rightarrow> driver \<Rightarrow> code_point list \<Rightarrow> row option
     \<Rightarrow> (error + row_dict list) \<times> event list" where
  "execute_query U config db sql params =
     (if \<not> validate_sql U sql (security_mode config)
      then (Inl (PolicyViolation (get_error_message U sql (security_mode config))), [])
      else case connect db of
        Some e \<Rightarrow> (Inl (BackendError e), [])
      | None \<Rightarrow>
          (case execute db sql params of
             Inl e \<Rightarrow> (Inl (BackendError e), [])
           | Inr cur \<Rightarrow>
               if is_query_statement U sql then
                 (case fetchall cur of
                    Inl e \<Rightarrow> (Inl (BackendError e), [StatementExecuted])
                  | Inr results \<Rightarrow>
                      let columns = (case description cur of None \<Rightarrow> [] | Some names \<Rightarrow> names);
                          result_dicts = map (dict_zip columns) results
                      in if int (length result_dicts) > max_result_rows config
                         then (Inr (slice_to result_dicts (max_result_rows config)),
                               [StatementExecuted, RowsFetched, TruncationWarning])
                         else (Inr result_dicts, [StatementExecuted, RowsFetched]))
               else
                 (case commit db of
                    Some e \<Rightarrow> (Inl (BackendError e), [StatementExecuted])
                  | None \<Rightarrow>
                      (Inr [summary (rowcount cur)], [StatementExecuted, TransactionCommitted]))))"

definition execute_safe_query ::
  "unicode \<Rightarrow> Config \<Rightarrow> driver \<Rightarrow> code_point list \<Rightarrow> row option
     \<Rightarrow> (error + row_dict list) \<times> event list" where
  "execute_safe_query U config db sql params =
     (if \<not> validate_sql U sql READONLY then (Inl SystemQueryNotReadonly, [])
      else execute_query U config db sql params)"

definition indent :: string where
  "indent = replicate 16 (CHR '' '')"

definition test_sql :: "code_point list" where
  "test_sql = str
    (CHR 0x0A # indent @ ''SELECT USERNAME '' @
     CHR 0x0A # indent @ ''FROM ALL_USERS '' @
     CHR 0x0A # indent @ ''WHERE USERNAME = ?'' @
     CHR 0x0A # indent)"

text \<open>The statement that \<^verbatim>\<open>get_table_indexes\<close> sends through \<open>execute_safe_query\<close>.\<close>

definition index_sql :: "code_point list" where
  "index_sql = str
    ([CHR 0x0A] @
     replicate 12 (CHR '' '') @ ''SELECT '' @ [CHR 0x0A] @
     replicate 16 (CHR '' '') @ ''INDEX_NAME as indexname,'' @ [CHR 0x0A] @
     replicate 16 (CHR '' '') @ [CHR 0x27] @ ''CREATE INDEX '' @ [CHR 0x27] @ '' || INDEX_NAME || '' @ [CHR 0x27] @ '' ON '' @ [CHR 0x27] @ '' || TABLE_NAME as indexdef,'' @ [CHR 0x0A] @
     replicate 16 (CHR '' '') @ ''CASE WHEN UNIQUENESS = '' @ [CHR 0x27] @ ''UNIQUE'' @ [CHR 0x27] @ '' THEN '' @ [CHR 0x27] @ ''YES'' @ [CHR 0x27] @ '' ELSE '' @ [CHR 0x27] @ ''NO'' @ [CHR 0x27] @ '' END as is_unique'' @ [CHR 0x0A] @
     replicate 12 (CHR '' '') @ ''FROM ALL_INDEXES '' @ [CHR 0x0A] @
     replicate 12 (CHR '' '') @ ''WHERE TABLE_NAME = ? '' @ [CHR 0x0A] @
     replicate 16 (CHR '' '') @ ''AND OWNER = ?'' @ [CHR 0x0A] @
     replicate 12 (CHR '' '') @ ''ORDER BY INDEX_NAME'' @ [CHR 0x0A] @
     replicate 12 (CHR '' ''))"

text \<open>
  \<^verbatim>\<open>_is_schema_allowed\<close>. The \<^verbatim>\<open>try\<close> around the probe catches every exception, so each
  error of \<open>execute_safe_query\<close> becomes the answer \<open>False\<close>.
\<close>

definition is_schema_allowed ::
  "unicode \<Rightarrow> Config \<Rightarrow> driver \<Rightarrow> code_point list \<Rightarrow> (error + bool) \<times> event list" where
  "is_schema_allowed U config db schema =
     (if is_all_schemas_allowed config then (Inr True, [])
      else if is_auto_discover_schemas config then
        (case execute_safe_query U config db test_sql (Some [StrVal schema]) of
           (Inl e, trace) \<Rightarrow> (Inr False, trace)
         | (Inr result, trace) \<Rightarrow> (Inr (0 < length result), trace))
      else (Inr (schema \<in> set (allowed_schemas config)), []))"

section \<open>An excerpt of the Unicode database\<close>

text \<open>
  The tables on which the definitions are run on concrete texts. \<open>excerpt_space\<close> holds
  every white-space code point from 128 on. The other three tables are those of Python
  for the code points 128 to 255 and for U+0130, U+0178, U+0307, U+039C, U+1E9E and
  U+212A (the Kelvin sign); on the other code points they are a default, and no theorem
  below runs them there.
\<close>

definition excerpt_space :: "code_point \<Rightarrow> bool" where
  "excerpt_space c =
     (c = 0x85 \<or> c = 0xA0 \<or> c = 0x1680 \<or> (0x2000 \<le> c \<and> c \<le> 0x200A) \<or> c = 0x2028 \<or>
      c = 0x2029 \<or> c = 0x202F \<or> c = 0x205F \<or> c = 0x3000)"

definition excerpt_alnum :: "code_point \<Rightarrow> bool" where
  "excerpt_alnum c =
     (c = 0xAA \<or> c = 0xB2 \<or> c = 0xB3 \<or> c = 0xB5 \<or> c = 0xB9 \<or> c = 0xBA \<or>
      (0xBC \<le> c \<and> c \<le> 0xBE) \<or> (0xC0 \<le> c \<and> c \<le> 0xD6) \<or> (0xD8 \<le> c \<and> c \<le> 0xF6) \<or>
      (0xF8 \<le> c \<and> c \<le> 0xFF) \<or>
      c = 0x130 \<or> c = 0x178 \<or> c = 0x39C \<or> c = 0x1E9E \<or> c = 0x212A)"

definition excerpt_upper :: "code_point \<Rightarrow> code_point list" where
  "excerpt_upper c =
     (if c = 0xB5 then [0x39C]
      else if c = 0xDF then [0x53, 0x53]
      else if 0xE0 \<le> c \<and> c \<le> 0xFE \<and> c \<noteq> 0xF7 then [c - 0x20]
      else if c = 0xFF then [0x178]
      else [c])"

definition excerpt_lower :: "code_point \<Rightarrow> code_point list" where
  "excerpt_lower c =
     (if 0xC0 \<le> c \<and> c \<le> 0xDE \<and> c \<noteq> 0xD7 then [c + 0x20]
      else if c = 0x130 then [0x69, 0x307]
      else if c = 0x178 then [0xFF]
      else if c = 0x39C then [0x3BC]
      else if c = 0x1E9E then [0xDF]
      else if c = 0x212A then [0x6B]
      else [c])"

definition unicode_excerpt :: unicode where
  "unicode_excerpt =
     \<lparr>to_upper = excerpt_upper, to_lower = excerpt_lower,
      is_space = excerpt_space, is_alnum = excerpt_alnum\<rparr>"

definition KELVIN_SIGN :: code_point where
  "KELVIN_SIGN = 0x212A"

text \<open>
  In the Unicode database no white-space code point has a case mapping: uppercasing
  leaves each of them as it is. \<open>uncased_spaces\<close> says so of the tables from 128 on.
\<close>

definition uncased_spaces :: "unicode \<Rightarrow> bool" where
  "uncased_spaces U = (\<forall>c. is_space U c \<longrightarrow> to_upper U c = [c])"

text \<open>
  \<open>same_letter c d\<close>: the two code points are equal, or the two cases of one ASCII
  letter.
\<close>

definition same_letter :: "code_point \<Rightarrow> code_point \<Rightarrow> bool" where
  "same_letter c d =
     (c = d \<or> (65 \<le> c \<and> c \<le> 90 \<and> d = c + 32) \<or> (65 \<le> d \<and> d \<le> 90 \<and> c = d + 32))"

section \<open>The specification's reading of the read-only scan\<close>

text \<open>
  The specification describes the read-only decision with a scan for whole keyword tokens
  on statements that do not start with SELECT. \<open>spec_authorize_readonly\<close> follows these
  words, a token being a white-space delimited word of the normalized text; it is compared
  with \<open>validate_sql\<close> below.
\<close>

definition spec_authorize_readonly :: "unicode \<Rightarrow> code_point list \<Rightarrow> bool" where
  "spec_authorize_readonly U S =
     (let sql_upper = str_strip U (str_upper U S);
          first_keyword = extract_first_keyword U sql_upper
      in first_keyword \<in> set READONLY_OPERATIONS \<and>
         (if first_keyword = str ''SELECT''
          then \<not> list_ex (\<lambda>pattern. re_search U pattern sql_upper) dangerous_patterns
          else \<not> list_ex (\<lambda>token. token \<in> set (WRITE_OPERATIONS @ DANGEROUS_OPERATIONS))
                   (str_split U sql_upper)))"

section \<open>Stub collaborators\<close>

text \<open>
  Drivers and configurations on which the executor and the schema resolver are run:
  a driver whose every statement succeeds with the given rows in one column
  \<open>USERNAME\<close>, a driver whose connection fails, and configurations for the modes
  and strategies.
\<close>

definition stub_cursor :: "row list \<Rightarrow> cursor" where
  "stub_cursor rows =
     \<lparr>fetchall = Inr rows, description = Some [str ''USERNAME''], rowcount = - 1\<rparr>"

definition stub_driver :: "row list \<Rightarrow> driver" where
  "stub_driver rows =
     \<lparr>connect = None, execute = (\<lambda>sql params. Inr (stub_cursor rows)), commit = None\<rparr>"

definition failing_driver :: driver where
  "failing_driver = \<lparr>connect = Some (DbError ''connection refused''),
     execute = (\<lambda>sql params. Inl (DbError ''not connected'')), commit = None\<rparr>"

definition example_config :: "SecurityMode \<Rightarrow> int \<Rightarrow> Config" where
  "example_config mode n = \<lparr>security_mode = mode, max_result_rows = n,
     is_all_schemas_allowed = False, is_auto_discover_schemas = False,
     allowed_schemas = [str ''SYSDBA'']\<rparr>"

definition schema_config :: "bool \<Rightarrow> bool \<Rightarrow> code_point list list \<Rightarrow> Config" where
  "schema_config all auto names = \<lparr>security_mode = READONLY, max_result_rows = 1000,
     is_all_schemas_allowed = all, is_auto_discover_schemas = auto, allowed_schemas = names\<rparr>"

section \<open>Facts about the text primitives\<close>

lemma str_startswith_iff: "str_startswith p s \<longleftrightarrow> (\<exists>b. s = p @ b)"
  by (induction p s rule: str_startswith.induct) auto

lemma str_contains_iff: "str_contains f s \<longleftrightarrow> (\<exists>a b. s = a @ f @ b)"
proof (induction s)
  case Nil
  show ?case by simp
next
  case (Cons c cs)
  show ?case
  proof
    assume "str_contains f (c # cs)"
    then consider "str_startswith f (c # cs)" | "str_contains f cs" by auto
    then show "\<exists>a b. c # cs = a @ f @ b"
    proof cases
      case 1
      then obtain b where "c # cs = f @ b" by (auto simp: str_startswith_iff)
      then have "c # cs = [] @ f @ b" by simp
      then show ?thesis by blast
    next
      case 2
      then obtain a b where "cs = a @ f @ b" using Cons.IH by blast
      then have "c # cs = (c # a) @ f @ b" by simp
      then show ?thesis by blast
    qed
  next
    assume "\<exists>a b. c # cs = a @ f @ b"
    then obtain a b where ab: "c # cs = a @ f @ b" by blast
    show "str_contains f (c # cs)"
    proof (cases a)
      case Nil
      with ab have "str_startswith f (c # cs)" by (auto simp: str_startswith_iff)
      then show ?thesis by simp
    next
      case (Cons x a')
      with ab have "cs = a' @ f @ b" by simp
      then have "str_contains f cs" using Cons.IH by blast
      then show ?thesis by simp
    qed
  qed
qed

lemma upper_char_space:
  assumes "uncased_spaces U" and "isspace U c"
  shows "upper_char U c = [c]"
proof (cases "c < 128")
  case True
  with assms(2) show ?thesis by (auto simp: isspace_def upper_char_def)
next
  case False
  with assms show ?thesis by (simp add: isspace_def upper_char_def uncased_spaces_def)
qed

lemma str_upper_spaces:
  assumes "uncased_spaces U" and "\<forall>c\<in>set a. isspace U c"
  shows "str_upper U a = a"
  using assms(2)
proof (induction a)
  case Nil
  show ?case by (simp add: str_upper_def)
next
  case (Cons c a)
  then have "upper_char U c = [c]" using assms(1) by (simp add: upper_char_space)
  moreover have "str_upper U a = a" using Cons by simp
  ultimately show ?case by (simp add: str_upper_def)
qed

lemma str_upper_append: "str_upper U (a @ b) = str_upper U a @ str_upper U b"
  by (simp add: str_upper_def)

lemma str_strip_pad:
  assumes "\<forall>c\<in>set a. isspace U c" and "\<forall>c\<in>set b. isspace U c"
  shows "str_strip U (a @ s @ b) = str_strip U s"
proof -
  have 1: "dropWhile (isspace U) (a @ s @ b) = dropWhile (isspace U) (s @ b)"
    by (rule dropWhile_append2) (use assms(1) in auto)
  show ?thesis
  proof (cases "\<forall>c\<in>set s. isspace U c")
    case True
    have "\<forall>c\<in>set (s @ b). isspace U c" using True assms(2) by auto
    then have "dropWhile (isspace U) (s @ b) = []"
      by (simp only: dropWhile_eq_Nil_conv)
    then have e1: "dropWhile (isspace U) (a @ s @ b) = []"
      using 1 by (simp only:)
    have e2: "dropWhile (isspace U) s = []"
      using True by (simp only: dropWhile_eq_Nil_conv)
    show ?thesis by (simp only: str_strip_def e1 e2)
  next
    case False
    then obtain x where x: "x \<in> set s" "\<not> isspace U x" by blast
    then have 2: "dropWhile (isspace U) (s @ b) = dropWhile (isspace U) s @ b"
      by (rule dropWhile_append1)
    have "dropWhile (isspace U) (rev b @ rev (dropWhile (isspace U) s))
            = dropWhile (isspace U) (rev (dropWhile (isspace U) s))"
      by (rule dropWhile_append2) (use assms(2) in auto)
    then show ?thesis using 1 2 by (simp add: str_strip_def)
  qed
qed

lemma normalize_pad:
  assumes "uncased_spaces U" and "\<forall>c\<in>set a. isspace U c" and "\<forall>c\<in>set b. isspace U c"
  shows "str_strip U (str_upper U (a @ s @ b)) = str_strip U (str_upper U s)"
proof -
  have "str_upper U (a @ s @ b) = a @ str_upper U s @ b"
    using assms by (simp add: str_upper_append str_upper_spaces)
  then show ?thesis using assms(2,3) by (simp add: str_strip_pad)
qed

lemma same_letter_upper: "same_letter c d \<Longrightarrow> upper_char U c = upper_char U d"
  by (auto simp: same_letter_def upper_char_def)

lemma ascii_case_change_upper:
  "list_all2 same_letter S' S \<Longrightarrow> str_upper U S' = str_upper U S"
  by (induction rule: list_all2_induct) (simp_all add: str_upper_def same_letter_upper)

lemma uncased_spaces_excerpt: "uncased_spaces unicode_excerpt"
  by (auto simp: uncased_spaces_def unicode_excerpt_def excerpt_space_def excerpt_upper_def)

lemma split_from_first:
  "split_from U cur s = t # ts \<Longrightarrow> cur \<noteq> [] \<or> (s \<noteq> [] \<and> \<not> isspace U (hd s))
     \<Longrightarrow> \<exists>b. cur @ s = t @ b"
proof (induction s arbitrary: cur)
  case Nil
  then show ?case by (auto split: if_splits)
next
  case (Cons c cs)
  show ?case
  proof (cases "isspace U c")
    case True
    with Cons.prems have "cur \<noteq> []" by auto
    with True Cons.prems(1) have "t = cur" by simp
    then show ?thesis by blast
  next
    case False
    with Cons.prems(1) have "split_from U (cur @ [c]) cs = t # ts" by simp
    then have "\<exists>b. (cur @ [c]) @ cs = t @ b" by (rule Cons.IH) simp
    then show ?thesis by simp
  qed
qed

lemma str_strip_no_leading_space:
  assumes "str_strip U x \<noteq> []"
  shows "\<not> isspace U (hd (str_strip U x))"
proof -
  define y where "y = dropWhile (isspace U) x"
  have u: "str_strip U x = rev (dropWhile (isspace U) (rev y))"
    by (simp add: str_strip_def y_def)
  have "rev y = takeWhile (isspace U) (rev y) @ dropWhile (isspace U) (rev y)" by simp
  then have "y = rev (dropWhile (isspace U) (rev y)) @ rev (takeWhile (isspace U) (rev y))"
    by (metis rev_append rev_rev_ident)
  then have y: "y = str_strip U x @ rev (takeWhile (isspace U) (rev y))" using u by simp
  with assms have "y \<noteq> []" by auto
  then have "\<not> isspace U (hd y)" unfolding y_def by (rule hd_dropWhile)
  moreover have "hd y = hd (str_strip U x)" using y assms by (metis hd_append2)
  ultimately show ?thesis by simp
qed

lemma first_keyword_prefix:
  assumes "extract_first_keyword U (str_strip U x) = k" and "k \<noteq> []"
  shows "str_startswith k (str_strip U x)"
proof -
  obtain ts where ts: "split_from U [] (str_strip U x) = k # ts"
    using assms by (auto simp: extract_first_keyword_def str_split_def split: list.splits)
  then have "str_strip U x \<noteq> []" by auto
  then have "\<not> isspace U (hd (str_strip U x))" by (rule str_strip_no_leading_space)
  with ts \<open>str_strip U x \<noteq> []\<close> have "\<exists>b. [] @ str_strip U x = k @ b"
    by (intro split_from_first) auto
  then show ?thesis by (simp add: str_startswith_iff)
qed

section \<open>The validator\<close>

text \<open>
  C1, as the specification states it: under \<open>READONLY\<close> a statement is allowed iff its
  leading keyword is a read-only keyword and no embedded dangerous pattern matches, where
  a statement that does not start with SELECT is refused only for a whole write or
  dangerous keyword token. This fails: \<^verbatim>\<open>DESCRIBE created_orders\<close> has no such token
  (\<open>CREATED_ORDERS\<close> is one word, under white-space and under word-boundary tokenization
  alike), yet the validator refuses it, because \<open>CREATE\<close> is a substring of the text.
\<close>

theorem readonly_token_scan_counterexample:
  "spec_authorize_readonly unicode_excerpt (str ''DESCRIBE created_orders'') \<and>
   \<not> validate_sql unicode_excerpt (str ''DESCRIBE created_orders'') READONLY"
  by code_simp

text \<open>
  C1, amended: under \<open>READONLY\<close> a statement is allowed iff the leading keyword of its
  normalized text is a read-only keyword and, when that keyword is SELECT, none of the
  seven patterns is found in the normalized text, and otherwise no write or dangerous
  keyword occurs in the normalized text as a substring. This holds for every text and
  whatever the Unicode tables are.
\<close>

theorem validate_sql_readonly_iff:
  "validate_sql U S READONLY \<longleftrightarrow>
     (let sql_upper = str_strip U (str_upper U S);
          first_keyword = extract_first_keyword U sql_upper
      in first_keyword \<in> set READONLY_OPERATIONS \<and>
         (if first_keyword = str ''SELECT''
          then \<forall>pattern\<in>set dangerous_patterns. \<not> re_search U pattern sql_upper
          else \<forall>forbidden\<in>set (WRITE_OPERATIONS @ DANGEROUS_OPERATIONS).
                 \<not> (\<exists>a b. sql_upper = a @ forbidden @ b)))"
  by (simp add: validate_sql_def validate_readonly_def Let_def list_ex_iff str_contains_iff)

text \<open>The amended C1 at \<^verbatim>\<open>show tables\<close>, which the validator allows.\<close>

theorem validate_sql_readonly_iff_witness:
  "extract_first_keyword unicode_excerpt (str_strip unicode_excerpt
       (str_upper unicode_excerpt (str ''show tables''))) = str ''SHOW'' \<and>
   \<not> list_ex (\<lambda>forbidden. str_contains forbidden
         (str_strip unicode_excerpt (str_upper unicode_excerpt (str ''show tables''))))
       (WRITE_OPERATIONS @ DANGEROUS_OPERATIONS) \<and>
   validate_sql unicode_excerpt (str ''show tables'') READONLY"
proof -
  let ?U = unicode_excerpt
  let ?u = "str_strip ?U (str_upper ?U (str ''show tables''))"
  have k: "extract_first_keyword ?U ?u = str ''SHOW''" by code_simp
  have r: "str ''SHOW'' \<in> set READONLY_OPERATIONS" by code_simp
  have s: "str ''SHOW'' \<noteq> str ''SELECT''" by code_simp
  have n: "\<not> list_ex (\<lambda>forbidden. str_contains forbidden ?u)
             (WRITE_OPERATIONS @ DANGEROUS_OPERATIONS)" by code_simp
  then have "\<forall>forbidden\<in>set (WRITE_OPERATIONS @ DANGEROUS_OPERATIONS).
               \<not> (\<exists>a b. ?u = a @ forbidden @ b)"
    by (simp only: list_ex_iff str_contains_iff) blast
  with r s have "validate_sql ?U (str ''show tables'') READONLY"
    unfolding validate_sql_readonly_iff [of ?U "str ''show tables''"] Let_def k by simp
  with k n show ?thesis by blast
qed

text \<open>
  C2. Monotonicity asks that a statement allowed under \<open>READONLY\<close> is allowed under
  \<open>LIMITED_WRITE\<close>. The specification's own example of a harmless query,
  \<^verbatim>\<open>SELECT dropout_rate FROM metrics\<close>, is allowed under \<open>READONLY\<close>, where SELECT
  statements are scanned for the seven patterns, and refused under \<open>LIMITED_WRITE\<close>,
  where every statement is scanned for dangerous keywords as substrings. The same happens
  to the index query of \<^verbatim>\<open>get_table_indexes\<close>, which holds the literal
  \<^verbatim>\<open>'CREATE INDEX '\<close>.
\<close>

theorem limited_write_refuses_readonly_select:
  "validate_sql U (str ''SELECT dropout_rate FROM metrics'') READONLY \<and>
   \<not> validate_sql U (str ''SELECT dropout_rate FROM metrics'') LIMITED_WRITE \<and>
   validate_sql U index_sql READONLY \<and>
   \<not> validate_sql U index_sql LIMITED_WRITE"
  by code_simp

text \<open>
  C3, as the specification states it: a statement that starts with INSERT or UPDATE and
  matches none of the seven patterns is allowed under \<open>LIMITED_WRITE\<close>. This fails at
  \<^verbatim>\<open>UPDATE orders o SET created_at = 1\<close>: its leading keyword is UPDATE, no pattern
  matches it, and the validator refuses it because \<open>CREATE\<close> is a substring.
\<close>

theorem limited_write_pattern_counterexample:
  "extract_first_keyword unicode_excerpt (str_strip unicode_excerpt
       (str_upper unicode_excerpt (str ''UPDATE orders o SET created_at = 1''))) = str ''UPDATE'' \<and>
   \<not> list_ex (\<lambda>pattern. re_search unicode_excerpt pattern
         (str_strip unicode_excerpt
            (str_upper unicode_excerpt (str ''UPDATE orders o SET created_at = 1''))))
       dangerous_patterns \<and>
   \<not> validate_sql unicode_excerpt (str ''UPDATE orders o SET created_at = 1'') LIMITED_WRITE"
  by code_simp

text \<open>
  C3, amended: a statement whose leading keyword is INSERT or UPDATE and whose normalized
  text contains none of the dangerous keywords DELETE, DROP, CREATE, ALTER, TRUNCATE,
  GRANT, REVOKE as a substring is allowed under \<open>LIMITED_WRITE\<close>.
\<close>

theorem validate_sql_limited_write_allows:
  assumes "extract_first_keyword U (str_strip U (str_upper U S)) \<in> set WRITE_OPERATIONS"
    and "\<forall>dangerous\<in>set DANGEROUS_OPERATIONS.
           \<not> (\<exists>a b. str_strip U (str_upper U S) = a @ dangerous @ b)"
  shows "validate_sql U S LIMITED_WRITE"
  using assms
  by (simp add: validate_sql_def validate_limited_write_def Let_def list_ex_iff str_contains_iff)

text \<open>The amended C3 at \<^verbatim>\<open>insert into t values (1)\<close>.\<close>

theorem validate_sql_limited_write_allows_witness:
  "extract_first_keyword unicode_excerpt (str_strip unicode_excerpt
       (str_upper unicode_excerpt (str ''insert into t values (1)''))) \<in> set WRITE_OPERATIONS \<and>
   \<not> list_ex (\<lambda>dangerous. str_contains dangerous
         (str_strip unicode_excerpt (str_upper unicode_excerpt (str ''insert into t values (1)''))))
       DANGEROUS_OPERATIONS \<and>
   validate_sql unicode_excerpt (str ''insert into t values (1)'') LIMITED_WRITE"
proof -
  let ?U = unicode_excerpt
  let ?S = "str ''insert into t values (1)''"
  have h1: "extract_first_keyword ?U (str_strip ?U (str_upper ?U ?S)) \<in> set WRITE_OPERATIONS"
    by code_simp
  have n: "\<not> list_ex (\<lambda>dangerous. str_contains dangerous (str_strip ?U (str_upper ?U ?S)))
             DANGEROUS_OPERATIONS"
    by code_simp
  then have h2: "\<forall>dangerous\<in>set DANGEROUS_OPERATIONS.
      \<not> (\<exists>a b. str_strip ?U (str_upper ?U ?S) = a @ dangerous @ b)"
    by (simp only: list_ex_iff str_contains_iff) blast
  from h1 n validate_sql_limited_write_allows [OF h1 h2] show ?thesis by blast
qed

text \<open>
  C4. Under the mode \<open>FULL_ACCESS\<close> the validator allows every SQL text, the empty and
  the blank ones included; the mode's branch returns at once, without any scan.
\<close>

theorem validate_sql_full_access: "validate_sql U S FULL_ACCESS"
  by (simp add: validate_sql_def Let_def)

text \<open>C4 at the empty text, a blank text and a statement that drops a table.\<close>

theorem validate_sql_full_access_witness:
  "validate_sql unicode_excerpt [] FULL_ACCESS \<and>
   validate_sql unicode_excerpt (str ''   '') FULL_ACCESS \<and>
   validate_sql unicode_excerpt (str ''DROP TABLE t'') FULL_ACCESS"
  using validate_sql_full_access [of unicode_excerpt "[]"]
    validate_sql_full_access [of unicode_excerpt "str ''   ''"]
    validate_sql_full_access [of unicode_excerpt "str ''DROP TABLE t''"]
  by blast

text \<open>
  C5. The reason of a denial should name the cause of the denial. The statement
  \<^verbatim>\<open>SELECT * FROM t; DROP TABLE t\<close> is refused under \<open>READONLY\<close> by the pattern scan (its
  leading keyword SELECT is a read-only keyword), and the message built for it says that
  the operation SELECT is not supported in read-only mode.
\<close>

theorem scan_denial_reported_as_unsupported:
  "\<not> validate_sql U (str ''SELECT * FROM t; DROP TABLE t'') READONLY \<and>
   extract_first_keyword U (str_strip U (str_upper U (str ''SELECT * FROM t; DROP TABLE t'')))
     \<in> set READONLY_OPERATIONS \<and>
   get_error_message U (str ''SELECT * FROM t; DROP TABLE t'') READONLY
     = ReadonlyUnsupported (str ''SELECT'')"
  by code_simp

text \<open>
  C10, as stated: the verdict and the message do not change when the letters of the
  statement change case. This fails where the lowercase form of a letter does not
  uppercase back to it. Lowercasing \<^verbatim>\<open>SHOW REVOKE\<close> written with the Kelvin sign
  (U+212A) for its \<open>K\<close> gives \<^verbatim>\<open>show revoke\<close>: the first is allowed under \<open>READONLY\<close>
  (the Kelvin sign is its own uppercase, so the text does not contain \<open>REVOKE\<close>), the
  second is refused. Lowercasing the capital sharp s (U+1E9E) followed by \<open>x\<close> gives the
  small sharp s (U+00DF) followed by \<open>x\<close>, which uppercases to \<open>SSX\<close>: both are refused,
  with different keywords in the message.
\<close>

theorem case_change_counterexample:
  "str_lower unicode_excerpt (str ''SHOW REVO'' @ [KELVIN_SIGN] @ str ''E'') = str ''show revoke'' \<and>
   validate_sql unicode_excerpt (str ''SHOW REVO'' @ [KELVIN_SIGN] @ str ''E'') READONLY \<and>
   \<not> validate_sql unicode_excerpt (str ''show revoke'') READONLY \<and>
   str_lower unicode_excerpt (0x1E9E # str ''x'') = 0xDF # str ''x'' \<and>
   get_error_message unicode_excerpt (0x1E9E # str ''x'') READONLY
     = ReadonlyUnsupported (0x1E9E # str ''X'') \<and>
   get_error_message unicode_excerpt (0xDF # str ''x'') READONLY
     = ReadonlyUnsupported (str ''SSX'')"
  by code_simp

text \<open>
  C10, amended: the verdict and the message do not change when white space is added or
  removed around the statement, nor under a change of letter case that leaves the
  uppercase form of the text as it was, as every change of case of ASCII letters does
  (\<open>ascii_case_change_upper\<close>): two texts whose uppercase forms agree, after padding
  each with white space, get the same verdict and the same message in every mode.
\<close>

theorem validate_sql_normalization_invariant:
  assumes "uncased_spaces U"
    and "\<forall>c\<in>set a. isspace U c" and "\<forall>c\<in>set b. isspace U c"
    and "\<forall>c\<in>set a'. isspace U c" and "\<forall>c\<in>set b'. isspace U c"
    and "str_upper U (a' @ S' @ b') = str_upper U (a @ S @ b)"
  shows "validate_sql U S' m = validate_sql U S m \<and>
         get_error_message U S' m = get_error_message U S m"
proof -
  have "str_strip U (str_upper U S') = str_strip U (str_upper U (a' @ S' @ b'))"
    using assms(1,4,5) by (simp only: normalize_pad)
  also have "\<dots> = str_strip U (str_upper U (a @ S @ b))" by (simp only: assms(6))
  also have "\<dots> = str_strip U (str_upper U S)" using assms(1,2,3) by (simp only: normalize_pad)
  finally show ?thesis by (simp add: validate_sql_def get_error_message_def)
qed

text \<open>
  C10, amended, at two spellings of one query that differ in the case of ASCII letters
  and in the blanks around them.
\<close>

theorem validate_sql_normalization_invariant_witness:
  "validate_sql unicode_excerpt (str ''Select 1 From Dual  '') READONLY
     = validate_sql unicode_excerpt (str ''  select 1 from dual'') READONLY \<and>
   get_error_message unicode_excerpt (str ''Select 1 From Dual  '') READONLY
     = get_error_message unicode_excerpt (str ''  select 1 from dual'') READONLY"
proof -
  let ?U = unicode_excerpt
  have h: "\<forall>c\<in>set (str ''  ''). isspace ?U c" "\<forall>c\<in>set []. isspace ?U c"
    by (simp_all add: isspace_def str_def)
  have "list_all2 same_letter (str ''  '' @ str ''Select 1 From Dual  '' @ [])
          ([] @ str ''  select 1 from dual'' @ str ''  '')"
    by code_simp
  then have e: "str_upper ?U (str ''  '' @ str ''Select 1 From Dual  '' @ [])
             = str_upper ?U ([] @ str ''  select 1 from dual'' @ str ''  '')"
    by (rule ascii_case_change_upper)
  show ?thesis
    by (rule validate_sql_normalization_invariant
          [OF uncased_spaces_excerpt h(2) h(1) h(1) h(2) e])
qed

section \<open>The executor\<close>

lemma query_keyword_is_query_statement:
  assumes "extract_first_keyword U (str_strip U (str_upper U sql))
             \<in> set (map str [''SELECT'', ''WITH'', ''SHOW'', ''DESCRIBE'', ''EXPLAIN''])"
  shows "is_query_statement U sql"
proof -
  let ?k = "extract_first_keyword U (str_strip U (str_upper U sql))"
  have "?k \<noteq> []" using assms by (auto simp: str_def)
  then have "str_startswith ?k (str_strip U (str_upper U sql))"
    by (intro first_keyword_prefix) auto
  with assms show ?thesis
    unfolding is_query_statement_def list_ex_iff by blast
qed

lemma execute_query_read_path:
  assumes "validate_sql U sql (security_mode config)" and "is_query_statement U sql"
  shows "TransactionCommitted \<notin> set (snd (execute_query U config db sql params))"
  using assms
  by (auto simp: execute_query_def Let_def split: option.splits sum.splits)

lemma execute_query_rows:
  assumes "validate_sql U sql (security_mode config)" and "is_query_statement U sql"
    and "connect db = None" and "execute db sql params = Inr cur" and "fetchall cur = Inr results"
  shows "execute_query U config db sql params =
     (let columns = (case description cur of None \<Rightarrow> [] | Some names \<Rightarrow> names);
          result_dicts = map (dict_zip columns) results
      in if int (length results) > max_result_rows config
         then (Inr (slice_to result_dicts (max_result_rows config)),
               [StatementExecuted, RowsFetched, TruncationWarning])
         else (Inr result_dicts, [StatementExecuted, RowsFetched]))"
  using assms by (simp add: execute_query_def Let_def)

text \<open>
  C6, as the specification states it: a permitted statement whose leading keyword is one
  of SELECT, WITH, SHOW, DESCRIBE, EXPLAIN, ANALYZE is run as a read. This fails for
  ANALYZE: \<^verbatim>\<open>ANALYZE TABLE t\<close> is permitted under \<open>READONLY\<close>, and the executor, whose
  own list of prefixes has no ANALYZE, commits and returns the summary record.
\<close>

theorem analyze_takes_commit_path:
  "validate_sql unicode_excerpt (str ''ANALYZE TABLE t'') READONLY \<and>
   extract_first_keyword unicode_excerpt (str_strip unicode_excerpt
       (str_upper unicode_excerpt (str ''ANALYZE TABLE t''))) \<in> set READONLY_OPERATIONS \<and>
   execute_query unicode_excerpt (example_config READONLY 1000)
       (stub_driver [[StrVal (str ''x'')]]) (str ''ANALYZE TABLE t'') None
     = (Inr [summary (- 1)], [StatementExecuted, TransactionCommitted])"
  by code_simp

text \<open>
  C6, amended: a permitted statement whose leading keyword is one of SELECT, WITH, SHOW,
  DESCRIBE, EXPLAIN is run as a read: the executor never commits, and when the driver
  connects, executes and fetches without error it fetches the rows and returns mappings
  from the column names to the values of fetched rows.
\<close>

theorem execute_query_read_keywords:
  assumes "validate_sql U sql (security_mode config)"
    and "extract_first_keyword U (str_strip U (str_upper U sql))
           \<in> set (map str [''SELECT'', ''WITH'', ''SHOW'', ''DESCRIBE'', ''EXPLAIN''])"
  shows "TransactionCommitted \<notin> set (snd (execute_query U config db sql params)) \<and>
     (connect db = None \<and> execute db sql params = Inr cur \<and> fetchall cur = Inr results \<longrightarrow>
        (\<exists>rows. fst (execute_query U config db sql params) = Inr rows \<and>
           (\<forall>r\<in>set rows. \<exists>values\<in>set results.
              r = dict_zip (case description cur of None \<Rightarrow> [] | Some names \<Rightarrow> names) values)) \<and>
        RowsFetched \<in> set (snd (execute_query U config db sql params)))"
proof -
  have q: "is_query_statement U sql" using assms(2) by (rule query_keyword_is_query_statement)
  have 1: "TransactionCommitted \<notin> set (snd (execute_query U config db sql params))"
    using assms(1) q by (rule execute_query_read_path)
  have 2: "(\<exists>rows. fst (execute_query U config db sql params) = Inr rows \<and>
           (\<forall>r\<in>set rows. \<exists>values\<in>set results.
              r = dict_zip (case description cur of None \<Rightarrow> [] | Some names \<Rightarrow> names) values)) \<and>
        RowsFetched \<in> set (snd (execute_query U config db sql params))"
    if h: "connect db = None" "execute db sql params = Inr cur" "fetchall cur = Inr results"
  proof -
    have sub: "r \<in> set xs" if "r \<in> set (slice_to xs n)" for r and xs :: "row_dict list" and n
      using that by (auto simp: slice_to_def dest: in_set_takeD split: if_splits)
    show ?thesis
      unfolding execute_query_rows [OF assms(1) q h] Let_def
      by (auto split: if_splits dest!: sub)
  qed
  from 1 2 show ?thesis by blast
qed

text \<open>The amended C6 at \<^verbatim>\<open>select 1 from dual\<close> under \<open>LIMITED_WRITE\<close>.\<close>

theorem execute_query_read_keywords_witness:
  "validate_sql unicode_excerpt (str ''select 1 from dual'') LIMITED_WRITE \<and>
   extract_first_keyword unicode_excerpt (str_strip unicode_excerpt
       (str_upper unicode_excerpt (str ''select 1 from dual'')))
     \<in> set (map str [''SELECT'', ''WITH'', ''SHOW'', ''DESCRIBE'', ''EXPLAIN'']) \<and>
   TransactionCommitted \<notin> set (snd (execute_query unicode_excerpt (example_config LIMITED_WRITE 1000)
      (stub_driver [[IntVal 1]]) (str ''select 1 from dual'') None)) \<and>
   RowsFetched \<in> set (snd (execute_query unicode_excerpt (example_config LIMITED_WRITE 1000)
      (stub_driver [[IntVal 1]]) (str ''select 1 from dual'') None))"
proof -
  let ?U = unicode_excerpt
  let ?S = "str ''select 1 from dual''"
  let ?cfg = "example_config LIMITED_WRITE 1000"
  let ?db = "stub_driver [[IntVal 1]]"
  have m: "security_mode ?cfg = LIMITED_WRITE" by (simp add: example_config_def)
  have v: "validate_sql ?U ?S LIMITED_WRITE" by code_simp
  then have h1: "validate_sql ?U ?S (security_mode ?cfg)" by (simp only: m)
  have h2: "extract_first_keyword ?U (str_strip ?U (str_upper ?U ?S))
     \<in> set (map str [''SELECT'', ''WITH'', ''SHOW'', ''DESCRIBE'', ''EXPLAIN''])" by code_simp
  have h3: "connect ?db = None \<and> execute ?db ?S None = Inr (stub_cursor [[IntVal 1]]) \<and>
     fetchall (stub_cursor [[IntVal 1]]) = Inr [[IntVal 1]]"
    by (simp add: stub_driver_def stub_cursor_def)
  from execute_query_read_keywords [OF h1 h2, of ?db None "stub_cursor [[IntVal 1]]" "[[IntVal 1]]"] h3
  have "TransactionCommitted \<notin> set (snd (execute_query ?U ?cfg ?db ?S None)) \<and>
        RowsFetched \<in> set (snd (execute_query ?U ?cfg ?db ?S None))" by blast
  with v h2 show ?thesis by blast
qed

text \<open>
  C7. A read query that fetched \<open>M\<close> rows under a row limit \<open>N\<close> (not negative) returns
  the first \<open>N\<close> row mappings in the order fetched and logs the truncation warning when
  \<open>M > N\<close>, and returns all \<open>M\<close> mappings without the warning when \<open>M \<le> N\<close>; the limit
  is applied to the fetched rows and the result is never an error.
\<close>

theorem execute_query_row_limit:
  assumes "validate_sql U sql (security_mode config)" and "is_query_statement U sql"
    and "connect db = None" and "execute db sql params = Inr cur" and "fetchall cur = Inr results"
    and "0 \<le> max_result_rows config"
  shows "(let N = max_result_rows config;
              M = int (length results);
              result_dicts = map (dict_zip (case description cur of None \<Rightarrow> [] | Some names \<Rightarrow> names)) results;
              outcome = execute_query U config db sql params
          in fst outcome = Inr (if M > N then take (nat N) result_dicts else result_dicts) \<and>
             (TruncationWarning \<in> set (snd outcome) \<longleftrightarrow> M > N))"
  unfolding execute_query_rows [OF assms(1-5)] Let_def
  using assms(6) by (simp add: slice_to_def)

text \<open>C7 at three fetched rows and the limit 2.\<close>

theorem execute_query_row_limit_witness:
  "execute_query unicode_excerpt (example_config READONLY 2)
     (stub_driver [[StrVal (str ''A'')], [StrVal (str ''B'')], [StrVal (str ''C'')]])
     (str ''SELECT USERNAME FROM ALL_USERS'') None
   = (Inr [[(str ''USERNAME'', StrVal (str ''A''))], [(str ''USERNAME'', StrVal (str ''B''))]],
      [StatementExecuted, RowsFetched, TruncationWarning])"
proof -
  let ?U = unicode_excerpt
  let ?S = "str ''SELECT USERNAME FROM ALL_USERS''"
  let ?cfg = "example_config READONLY 2"
  let ?rows = "[[StrVal (str ''A'')], [StrVal (str ''B'')], [StrVal (str ''C'')]]"
  let ?db = "stub_driver ?rows"
  have m: "security_mode ?cfg = READONLY" by (simp add: example_config_def)
  have "validate_sql ?U ?S READONLY" by code_simp
  then have h1: "validate_sql ?U ?S (security_mode ?cfg)" by (simp only: m)
  have h2: "is_query_statement ?U ?S" by code_simp
  have h3: "connect ?db = None" by (simp add: stub_driver_def)
  have h4: "execute ?db ?S None = Inr (stub_cursor ?rows)" by (simp add: stub_driver_def)
  have h5: "fetchall (stub_cursor ?rows) = Inr ?rows" by (simp add: stub_cursor_def)
  have h6: "0 \<le> max_result_rows ?cfg" by (simp add: example_config_def)
  have d: "description (stub_cursor ?rows) = Some [str ''USERNAME'']" by (simp add: stub_cursor_def)
  have n: "max_result_rows ?cfg = 2" by (simp add: example_config_def)
  have z: "dict_zip [k] [v] = [(k, v)]" for k v by (simp add: dict_zip_def)
  have t: "snd (execute_query ?U ?cfg ?db ?S None) = [StatementExecuted, RowsFetched, TruncationWarning]"
    unfolding execute_query_rows [OF h1 h2 h3 h4 h5] Let_def n by simp
  from execute_query_row_limit [OF h1 h2 h3 h4 h5 h6]
  have "fst (execute_query ?U ?cfg ?db ?S None)
          = Inr [[(str ''USERNAME'', StrVal (str ''A''))], [(str ''USERNAME'', StrVal (str ''B''))]]"
    unfolding Let_def d n by (simp add: z)
  with t show ?thesis by (simp add: prod_eq_iff)
qed

section \<open>The schema resolver\<close>

text \<open>
  The probe statement passes the validator in every mode and is run as a query, so
  \<open>execute_safe_query\<close> on it is the read path of the executor.
\<close>

lemma test_sql_readonly: "validate_sql U test_sql READONLY"
  by code_simp

lemma test_sql_limited_write: "validate_sql U test_sql LIMITED_WRITE"
  by code_simp

lemma test_sql_valid: "validate_sql U test_sql m"
proof (cases m)
  case READONLY
  then show ?thesis using test_sql_readonly by simp
next
  case LIMITED_WRITE
  then show ?thesis using test_sql_limited_write by simp
next
  case FULL_ACCESS
  then show ?thesis by (simp add: validate_sql_def)
qed

lemma test_sql_query: "is_query_statement U test_sql"
  by code_simp

lemma execute_safe_query_probe:
  "execute_safe_query U config db test_sql params =
     (case connect db of
        Some e \<Rightarrow> (Inl (BackendError e), [])
      | None \<Rightarrow>
          (case execute db test_sql params of
             Inl e \<Rightarrow> (Inl (BackendError e), [])
           | Inr cur \<Rightarrow>
               (case fetchall cur of
                  Inl e \<Rightarrow> (Inl (BackendError e), [StatementExecuted])
                | Inr results \<Rightarrow>
                    let columns = (case description cur of None \<Rightarrow> [] | Some names \<Rightarrow> names);
                        result_dicts = map (dict_zip columns) results
                    in if int (length result_dicts) > max_result_rows config
                       then (Inr (slice_to result_dicts (max_result_rows config)),
                             [StatementExecuted, RowsFetched, TruncationWarning])
                       else (Inr result_dicts, [StatementExecuted, RowsFetched]))))"
  by (simp add: execute_safe_query_def execute_query_def test_sql_valid test_sql_query
      split: option.splits sum.splits)

lemma slice_to_nonempty: "1 \<le> n \<Longrightarrow> slice_to xs n \<noteq> [] \<longleftrightarrow> xs \<noteq> []"
  by (cases xs) (auto simp: slice_to_def)

text \<open>
  C8. Under the auto-discovery strategy the resolver answers \<open>True\<close> iff the forced
  read-only probe returns at least one row; when the probe fails, whatever the error, the
  answer is \<open>False\<close> and no error reaches the caller. With a row limit of at least 1,
  the answer is \<open>True\<close> iff the driver connects, executes the probe and fetches at
  least one row.
\<close>

theorem is_schema_allowed_auto_discover:
  assumes "\<not> is_all_schemas_allowed config" and "is_auto_discover_schemas config"
  shows "fst (is_schema_allowed U config db schema) =
     Inr (case fst (execute_safe_query U config db test_sql (Some [StrVal schema])) of
            Inl e \<Rightarrow> False
          | Inr result \<Rightarrow> 0 < length result) \<and>
     (1 \<le> max_result_rows config \<longrightarrow>
        (fst (is_schema_allowed U config db schema) = Inr True \<longleftrightarrow>
           connect db = None \<and>
           (\<exists>cur rows. execute db test_sql (Some [StrVal schema]) = Inr cur \<and>
              fetchall cur = Inr rows \<and> rows \<noteq> [])))"
proof -
  have 1: "fst (is_schema_allowed U config db schema) =
     Inr (case fst (execute_safe_query U config db test_sql (Some [StrVal schema])) of
            Inl e \<Rightarrow> False
          | Inr result \<Rightarrow> 0 < length result)"
    using assms by (auto simp: is_schema_allowed_def split: prod.splits sum.splits)
  have 2: "fst (is_schema_allowed U config db schema) = Inr True \<longleftrightarrow>
           connect db = None \<and>
           (\<exists>cur rows. execute db test_sql (Some [StrVal schema]) = Inr cur \<and>
              fetchall cur = Inr rows \<and> rows \<noteq> [])"
    if n: "1 \<le> max_result_rows config"
    unfolding 1 execute_safe_query_probe Let_def
    using slice_to_nonempty [OF n]
    by (auto split: option.splits sum.splits)
  from 1 2 show ?thesis by blast
qed

text \<open>C8 at a probe that finds one row, a probe that finds none and a failing connection.\<close>

theorem is_schema_allowed_auto_discover_witness:
  "\<not> is_all_schemas_allowed (schema_config False True []) \<and>
   is_auto_discover_schemas (schema_config False True []) \<and>
   fst (is_schema_allowed unicode_excerpt (schema_config False True [])
         (stub_driver [[StrVal (str ''SYSDBA'')]]) (str ''SYSDBA'')) = Inr True \<and>
   fst (is_schema_allowed unicode_excerpt (schema_config False True [])
         (stub_driver []) (str ''SYSDBA'')) = Inr False \<and>
   fst (is_schema_allowed unicode_excerpt (schema_config False True [])
         failing_driver (str ''SYSDBA'')) = Inr False"
proof -
  let ?U = unicode_excerpt
  let ?cfg = "schema_config False True []"
  let ?p = "Some [StrVal (str ''SYSDBA'')]"
  have h1: "\<not> is_all_schemas_allowed ?cfg" by (simp add: schema_config_def)
  have h2: "is_auto_discover_schemas ?cfg" by (simp add: schema_config_def)
  have p1: "fst (execute_safe_query ?U ?cfg (stub_driver [[StrVal (str ''SYSDBA'')]]) test_sql ?p)
              = Inr [[(str ''USERNAME'', StrVal (str ''SYSDBA''))]]"
    by (simp add: execute_safe_query_probe stub_driver_def stub_cursor_def schema_config_def dict_zip_def)
  have p2: "fst (execute_safe_query ?U ?cfg (stub_driver []) test_sql ?p) = Inr []"
    by (simp add: execute_safe_query_probe stub_driver_def stub_cursor_def schema_config_def)
  have p3: "fst (execute_safe_query ?U ?cfg failing_driver test_sql ?p)
              = Inl (BackendError (DbError ''connection refused''))"
    by (simp add: execute_safe_query_probe failing_driver_def)
  show ?thesis
    using h1 h2
      is_schema_allowed_auto_discover [OF h1 h2, of ?U "stub_driver [[StrVal (str ''SYSDBA'')]]" "str ''SYSDBA''", THEN conjunct1]
      is_schema_allowed_auto_discover [OF h1 h2, of ?U "stub_driver []" "str ''SYSDBA''", THEN conjunct1]
      is_schema_allowed_auto_discover [OF h1 h2, of ?U failing_driver "str ''SYSDBA''", THEN conjunct1]
    unfolding p1 p2 p3 by simp
qed

text \<open>
  C9. When all schemas are allowed the resolver answers \<open>True\<close> for every name; under an
  explicit list it answers whether the name is an element of the list, compared as it
  is, and in both cases no statement is run.
\<close>

theorem is_schema_allowed_static:
  "(is_all_schemas_allowed config \<longrightarrow> is_schema_allowed U config db name = (Inr True, [])) \<and>
   (\<not> is_all_schemas_allowed config \<and> \<not> is_auto_discover_schemas config \<longrightarrow>
      is_schema_allowed U config db name = (Inr (name \<in> set (allowed_schemas config)), []))"
  by (simp add: is_schema_allowed_def)

text \<open>C9 at the wildcard and at the list that holds \<open>SYSDBA\<close> only.\<close>

theorem is_schema_allowed_static_witness:
  "is_schema_allowed unicode_excerpt (schema_config True False []) failing_driver (str ''OTHER'')
     = (Inr True, []) \<and>
   is_schema_allowed unicode_excerpt (schema_config False False [str ''SYSDBA'']) failing_driver
       (str ''SYSDBA'') = (Inr True, []) \<and>
   is_schema_allowed unicode_excerpt (schema_config False False [str ''SYSDBA'']) failing_driver
       (str ''sysdba'') = (Inr False, []) \<and>
   is_schema_allowed unicode_excerpt (schema_config False False [str ''SYSDBA'']) failing_driver
       (str ''OTHER'') = (Inr False, [])"
proof -
  let ?U = unicode_excerpt
  let ?cfg = "schema_config False False [str ''SYSDBA'']"
  have e: "str ''sysdba'' \<noteq> str ''SYSDBA''" "str ''OTHER'' \<noteq> str ''SYSDBA''" by code_simp+
  show ?thesis
    using is_schema_allowed_static [of "schema_config True False []" ?U failing_driver "str ''OTHER''"]
      is_schema_allowed_static [of ?cfg ?U failing_driver "str ''SYSDBA''"]
      is_schema_allowed_static [of ?cfg ?U failing_driver "str ''sysdba''"]
      is_schema_allowed_static [of ?cfg ?U failing_driver "str ''OTHER''"]
      e
    by (simp add: schema_config_def)
qed

end
